theory Spec2Isabelle
  imports Complex_Main "HOL-Library.Sublist" "HOL-Library.Char_ord" "HOL-Library.List_Lexorder"
    "HOL-Library.Multiset"
begin

section \<open>Retail sale analysis dashboard: the computation layer of retail\_dashb.py\<close>

text \<open>
  The script holds its data in a pandas DataFrame. A DataFrame is modelled as the list of
  its rows, in index order; a column is the list of one field over the rows, and an
  elementwise column operation is a function of the row. An amount is a rational number
  (every float64 value is one); the results of float division, which is where the
  non-finite values of the script come from, are modelled by \<open>fval\<close>. The guards, the
  filter, the weekday and age-group tables and the loader are modelled with sums and
  differences that do not round. Where the outcome depends on how float64 rounds (the
  columns and aggregates behind the insights, the column the transactions are ranked by),
  the arithmetic is a parameter, so that what is proved holds of float64 as of any other
  arithmetic.
\<close>

subsection \<open>Float cells: finite values, the two infinities and NaN\<close>

datatype fval = Fin rat | PInf | NInf | NaN

text \<open>True division of floats as numpy performs it: no exception, a non-finite result.\<close>

fun fdiv :: "fval \<Rightarrow> fval \<Rightarrow> fval" where
  "fdiv (Fin a) (Fin b) =
     (if b \<noteq> 0 then Fin (a / b) else if a = 0 then NaN else if 0 < a then PInf else NInf)"
| "fdiv (Fin a) PInf = Fin 0"
| "fdiv (Fin a) NInf = Fin 0"
| "fdiv PInf (Fin b) = (if 0 \<le> b then PInf else NInf)"
| "fdiv NInf (Fin b) = (if 0 \<le> b then NInf else PInf)"
| "fdiv _ _ = NaN"

fun fmul :: "fval \<Rightarrow> fval \<Rightarrow> fval" where
  "fmul (Fin a) (Fin b) = Fin (a * b)"
| "fmul NaN _ = NaN"
| "fmul _ NaN = NaN"
| "fmul PInf (Fin b) = (if b = 0 then NaN else if 0 < b then PInf else NInf)"
| "fmul NInf (Fin b) = (if b = 0 then NaN else if 0 < b then NInf else PInf)"
| "fmul (Fin a) PInf = (if a = 0 then NaN else if 0 < a then PInf else NInf)"
| "fmul (Fin a) NInf = (if a = 0 then NaN else if 0 < a then NInf else PInf)"
| "fmul PInf PInf = PInf"
| "fmul NInf NInf = PInf"
| "fmul PInf NInf = NInf"
| "fmul NInf PInf = NInf"

fun fadd :: "fval \<Rightarrow> fval \<Rightarrow> fval" where
  "fadd (Fin a) (Fin b) = Fin (a + b)"
| "fadd NaN _ = NaN"
| "fadd _ NaN = NaN"
| "fadd PInf NInf = NaN"
| "fadd NInf PInf = NaN"
| "fadd PInf _ = PInf"
| "fadd _ PInf = PInf"
| "fadd NInf _ = NInf"
| "fadd _ NInf = NInf"

text \<open>Float comparison: every comparison with NaN is false.\<close>

fun flt :: "fval \<Rightarrow> fval \<Rightarrow> bool" where
  "flt (Fin a) (Fin b) = (a < b)"
| "flt NaN _ = False"
| "flt _ NaN = False"
| "flt NInf NInf = False"
| "flt NInf _ = True"
| "flt _ NInf = False"
| "flt PInf _ = False"
| "flt _ PInf = True"


text \<open>\<open>Series.sum()\<close> of a float column: NaN cells are skipped (\<open>skipna=True\<close>),
  infinities are not.\<close>

definition notna :: "fval list \<Rightarrow> fval list" where
  "notna xs = filter (\<lambda>v. v \<noteq> NaN) xs"

definition series_sum :: "fval list \<Rightarrow> fval" where
  "series_sum xs = foldl fadd (Fin 0) (notna xs)"

subsection \<open>The data model\<close>

text \<open>A timestamp is a number of nanoseconds since 1970-01-01T00:00 (a pandas Timestamp).\<close>

type_synonym timestamp = int

definition ns_per_day :: int where
  "ns_per_day = 86400000000000"

text \<open>\<open>.dt.date\<close>: the calendar date, as the number of days since 1970-01-01.\<close>

definition dt_date :: "timestamp \<Rightarrow> int" where
  "dt_date t = t div ns_per_day"

definition weekday_labels :: "string list" where
  "weekday_labels =
     [''Monday'', ''Tuesday'', ''Wednesday'', ''Thursday'', ''Friday'', ''Saturday'', ''Sunday'']"

text \<open>\<open>.dt.day_name()\<close>: 1970-01-01 was a Thursday.\<close>

definition day_name :: "timestamp \<Rightarrow> string" where
  "day_name t = weekday_labels ! nat ((dt_date t + 3) mod 7)"

record transaction =
  transaction_id :: int
  sale_date :: timestamp
  customer_id :: int
  gender :: string
  age :: int
  category :: string
  total_sale :: rat
  cogs :: rat

type_synonym dataframe = "transaction list"

text \<open>The derived columns of \<open>load_retail_data\<close>, each an elementwise function of the row.\<close>

definition week_day :: "transaction \<Rightarrow> string" where
  "week_day r = day_name (sale_date r)"

definition profit :: "transaction \<Rightarrow> rat" where
  "profit r = total_sale r - cogs r"

text \<open>\<open>Series.nunique()\<close>.\<close>

definition nunique :: "'a list \<Rightarrow> nat" where
  "nunique xs = length (remdups xs)"

subsection \<open>calculate\_kpis\<close>

record kpis =
  total_revenue :: fval
  total_transactions :: nat
  avg_transaction :: fval
  total_profit :: fval
  kpi_profit_margin :: fval
  unique_customers :: nat
  avg_revenue_per_customer :: fval
  date_range_days :: int

definition col_sum :: "(transaction \<Rightarrow> rat) \<Rightarrow> dataframe \<Rightarrow> rat" where
  "col_sum f df = sum_list (map f df)"

definition calculate_kpis :: "dataframe option \<Rightarrow> kpis option" where
  "calculate_kpis df =
     (case df of
        None \<Rightarrow> None
      | Some D \<Rightarrow>
          if D = [] then None
          else Some \<lparr>
            total_revenue = Fin (col_sum total_sale D),
            total_transactions = length D,
            avg_transaction = fdiv (Fin (col_sum total_sale D)) (Fin (of_nat (length D))),
            total_profit = Fin (col_sum profit D),
            kpi_profit_margin =
              fmul (fdiv (Fin (col_sum profit D)) (Fin (col_sum total_sale D))) (Fin 100),
            unique_customers = nunique (map customer_id D),
            avg_revenue_per_customer =
              fdiv (Fin (col_sum total_sale D)) (Fin (of_nat (nunique (map customer_id D)))),
            date_range_days =
              (Max (set (map sale_date D)) - Min (set (map sale_date D))) div ns_per_day + 1
          \<rparr>)"

subsection \<open>The sidebar filter\<close>

text \<open>\<open>Series.unique()\<close>: the distinct values in order of first appearance.\<close>

definition unique :: "'a list \<Rightarrow> 'a list" where
  "unique xs = rev (remdups (rev xs))"

definition min_date :: "dataframe \<Rightarrow> int" where
  "min_date retail_data = dt_date (Min (set (map sale_date retail_data)))"

definition max_date :: "dataframe \<Rightarrow> int" where
  "max_date retail_data = dt_date (Max (set (map sale_date retail_data)))"

text \<open>Boolean masks are columns of truth values; \<open>&\<close> is elementwise, and \<open>df[mask]\<close>
  keeps the rows whose mask cell is true.\<close>

definition mask_and :: "bool list \<Rightarrow> bool list \<Rightarrow> bool list" where
  "mask_and a b = map2 (\<and>) a b"

definition select_rows :: "dataframe \<Rightarrow> bool list \<Rightarrow> dataframe" where
  "select_rows df msk = map fst (filter snd (zip df msk))"

definition isin :: "'a list \<Rightarrow> 'a list \<Rightarrow> bool list" where
  "isin col vals = map (\<lambda>v. v \<in> set vals) col"

definition filtered_data ::
  "int \<times> int \<Rightarrow> string list \<Rightarrow> string list \<Rightarrow> dataframe \<Rightarrow> dataframe" where
  "filtered_data date_range selected_categories selected_genders retail_data =
     select_rows retail_data
       (mask_and
          (mask_and
             (mask_and
                (map (\<lambda>r. fst date_range \<le> dt_date (sale_date r)) retail_data)
                (map (\<lambda>r. dt_date (sale_date r) \<le> snd date_range) retail_data))
             (isin (map category retail_data) selected_categories))
          (isin (map gender retail_data) selected_genders))"

subsection \<open>Grouped aggregations\<close>

text \<open>\<open>df.groupby(key)[val].sum()\<close>: one entry per distinct key, keys in sorted order.\<close>

definition groupby_sum ::
  "(transaction \<Rightarrow> 'k::linorder) \<Rightarrow> (transaction \<Rightarrow> rat) \<Rightarrow> dataframe \<Rightarrow> ('k \<times> rat) list" where
  "groupby_sum key val df =
     map (\<lambda>k. (k, sum_list (map val (filter (\<lambda>r. key r = k) df))))
       (sort (remdups (map key df)))"

text \<open>\<open>.reindex(labels)\<close>: one entry per label, in the order of the labels; a label the
  series does not have gets NaN.\<close>

definition reindex :: "'k list \<Rightarrow> ('k \<times> rat) list \<Rightarrow> ('k \<times> fval) list" where
  "reindex labels s =
     map (\<lambda>l. (l, case map_of s l of Some v \<Rightarrow> Fin v | None \<Rightarrow> NaN)) labels"

definition weekday_sales :: "dataframe \<Rightarrow> (string \<times> fval) list" where
  "weekday_sales df = reindex weekday_labels (groupby_sum week_day total_sale df)"

subsection \<open>Age groups\<close>

definition age_bins :: "int list" where
  "age_bins = [0, 25, 35, 45, 55, 100]"

definition age_labels :: "string list" where
  "age_labels = [''18-25'', ''26-35'', ''36-45'', ''46-55'', ''55+'']"

text \<open>\<open>pd.cut(x, bins, labels)\<close> with its defaults \<open>right=True\<close>,
  \<open>include_lowest=False\<close>: bin \<open>i\<close> is the interval \<open>(bins[i], bins[i+1]]\<close>, and a
  value in no bin gets no label (NaN).\<close>

fun cut :: "int list \<Rightarrow> 'l list \<Rightarrow> int \<Rightarrow> 'l option" where
  "cut (lo # hi # bins) (l # labels) x =
     (if lo < x \<and> x \<le> hi then Some l else cut (hi # bins) labels x)"
| "cut _ _ _ = None"

definition age_group :: "transaction \<Rightarrow> string option" where
  "age_group r = cut age_bins age_labels (age r)"

text \<open>\<open>groupby\<close> on a categorical column: rows without a category are dropped; with
  \<open>observed=False\<close> (the default of pandas before 3.0) every category has an entry, an
  empty one summing to 0, and with \<open>observed=True\<close> only the categories that occur.\<close>

definition groupby_cat_sum ::
  "bool \<Rightarrow> string list \<Rightarrow> (transaction \<Rightarrow> string option) \<Rightarrow> (transaction \<Rightarrow> rat) \<Rightarrow> dataframe
     \<Rightarrow> (string \<times> rat) list" where
  "groupby_cat_sum observed cats key val df =
     map (\<lambda>c. (c, sum_list (map val (filter (\<lambda>r. key r = Some c) df))))
       (if observed then filter (\<lambda>c. Some c \<in> set (map key df)) cats else cats)"

definition age_sales :: "bool \<Rightarrow> dataframe \<Rightarrow> (string \<times> fval) list" where
  "age_sales observed df =
     reindex age_labels (groupby_cat_sum observed age_labels age_group total_sale df)"

subsection \<open>Top and bottom transactions\<close>

text \<open>\<open>nlargest\<close> and \<open>nsmallest\<close> with \<open>keep='first'\<close>: the first \<open>n\<close> rows in descending
  (ascending) order of the column, equal values in order of appearance. The projection
  to six columns that follows in the script does not change which rows are shown. The
  column is given by its cells: in the script it is the frame's \<open>profit\<close> column, whose
  cells are the float64 differences that the loader stored.\<close>

definition nlargest :: "nat \<Rightarrow> (transaction \<Rightarrow> rat) \<Rightarrow> dataframe \<Rightarrow> dataframe" where
  "nlargest n col df = take n (sort_key (\<lambda>r. - col r) df)"

definition nsmallest :: "nat \<Rightarrow> (transaction \<Rightarrow> rat) \<Rightarrow> dataframe \<Rightarrow> dataframe" where
  "nsmallest n col df = take n (sort_key col df)"

definition top_trans :: "(transaction \<Rightarrow> rat) \<Rightarrow> dataframe \<Rightarrow> dataframe" where
  "top_trans profit_col df = nlargest 5 profit_col df"

definition bottom_trans :: "(transaction \<Rightarrow> rat) \<Rightarrow> dataframe \<Rightarrow> dataframe" where
  "bottom_trans profit_col df = nsmallest 5 profit_col df"

subsection \<open>The executive snapshot (the KPI block the page displays)\<close>

text \<open>The page computes its KPIs inline, only when the filtered data is not empty, and
  guards its two ratios.\<close>

definition gross_profit_margin :: "dataframe \<Rightarrow> fval" where
  "gross_profit_margin fd =
     (if col_sum total_sale fd \<noteq> 0
      then fmul (fdiv (Fin (col_sum profit fd)) (Fin (col_sum total_sale fd))) (Fin 100)
      else Fin 0)"

definition snapshot_avg_revenue_per_customer :: "dataframe \<Rightarrow> fval" where
  "snapshot_avg_revenue_per_customer fd =
     (if 0 < nunique (map customer_id fd)
      then fdiv (Fin (col_sum total_sale fd)) (Fin (of_nat (nunique (map customer_id fd))))
      else Fin 0)"

subsection \<open>Auto insights\<close>

datatype py_error = ValueError | KeyError string | DatabaseError















subsection \<open>Loading\<close>

text \<open>What the database delivers: the names of the columns of the table and its rows, the
  sale date still as text. Reading a column that the table does not have raises KeyError.\<close>

record raw_row =
  raw_transaction_id :: int
  raw_sale_date :: string
  raw_customer_id :: int
  raw_gender :: string
  raw_age :: int
  raw_category :: string
  raw_total_sale :: rat
  raw_cogs :: rat

record raw_table =
  columns :: "string list"
  raw_rows :: "raw_row list"

definition require_column :: "raw_table \<Rightarrow> string \<Rightarrow> py_error + unit" where
  "require_column t c = (if c \<in> set (columns t) then Inr () else Inl (KeyError c))"

text \<open>\<open>pd.to_datetime\<close> on the whole column: one unparseable cell raises.\<close>

fun to_datetime_col :: "(string \<Rightarrow> timestamp option) \<Rightarrow> string list \<Rightarrow> py_error + timestamp list" where
  "to_datetime_col parse [] = Inr []"
| "to_datetime_col parse (s # ss) =
     (case parse s of
        None \<Rightarrow> Inl ValueError
      | Some t \<Rightarrow> (case to_datetime_col parse ss of Inl e \<Rightarrow> Inl e | Inr ts \<Rightarrow> Inr (t # ts)))"

definition typed_row :: "raw_row \<Rightarrow> timestamp \<Rightarrow> transaction" where
  "typed_row r t =
     \<lparr>transaction_id = raw_transaction_id r, sale_date = t, customer_id = raw_customer_id r,
      gender = raw_gender r, age = raw_age r, category = raw_category r,
      total_sale = raw_total_sale r, cogs = raw_cogs r\<rparr>"

text \<open>The body of the \<open>try\<close> block: the fetch, given as its result, then the preprocessing.\<close>

definition load_body ::
  "py_error + raw_table \<Rightarrow> (string \<Rightarrow> timestamp option) \<Rightarrow> py_error + dataframe" where
  "load_body fetch parse =
     (case fetch of
        Inl e \<Rightarrow> Inl e
      | Inr t \<Rightarrow>
          (case require_column t ''sale_date'' of
             Inl e \<Rightarrow> Inl e
           | Inr _ \<Rightarrow>
               (case to_datetime_col parse (map raw_sale_date (raw_rows t)) of
                  Inl e \<Rightarrow> Inl e
                | Inr ts \<Rightarrow>
                    (case require_column t ''total_sale'' of
                       Inl e \<Rightarrow> Inl e
                     | Inr _ \<Rightarrow>
                         (case require_column t ''cogs'' of
                            Inl e \<Rightarrow> Inl e
                          | Inr _ \<Rightarrow> Inr (map2 typed_row (raw_rows t) ts))))))"

text \<open>\<open>except Exception: return None\<close>.\<close>

definition load_retail_data ::
  "py_error + raw_table \<Rightarrow> (string \<Rightarrow> timestamp option) \<Rightarrow> dataframe option" where
  "load_retail_data fetch parse =
     (case load_body fetch parse of Inl e \<Rightarrow> None | Inr df \<Rightarrow> Some df)"

text \<open>The top level of the script: without data it stops (\<open>st.stop()\<close>) before anything
  else runs; \<open>rest\<close> is everything below that line.\<close>

datatype 'a page = Stopped | Rendered 'a

definition dashboard ::
  "py_error + raw_table \<Rightarrow> (string \<Rightarrow> timestamp option) \<Rightarrow> (dataframe \<Rightarrow> 'a) \<Rightarrow> 'a page" where
  "dashboard fetch parse rest =
     (case load_retail_data fetch parse of
        None \<Rightarrow> Stopped
      | Some retail_data \<Rightarrow> Rendered (rest retail_data))"

subsection \<open>Sample data\<close>

text \<open>The two transactions of the spec's example (sales of 100 and 200, costs of 60 and
  50), on Saturday 2022-11-05 and on Monday 2022-11-07 at 10:00.\<close>

definition example_rows :: dataframe where
  "example_rows =
     [\<lparr>transaction_id = 1, sale_date = 19301 * ns_per_day, customer_id = 101, gender = ''Male'',
       age = 34, category = ''Beauty'', total_sale = 100, cogs = 60\<rparr>,
      \<lparr>transaction_id = 2, sale_date = 19303 * ns_per_day + 36000000000000, customer_id = 102,
       gender = ''Female'', age = 52, category = ''Clothing'', total_sale = 200, cogs = 50\<rparr>]"

text \<open>A single transaction with nothing sold and no cost.\<close>

definition zero_sale_rows :: dataframe where
  "zero_sale_rows =
     [\<lparr>transaction_id = 3, sale_date = 19301 * ns_per_day, customer_id = 103, gender = ''Male'',
       age = 41, category = ''Electronics'', total_sale = 0, cogs = 0\<rparr>]"






text \<open>Seven transactions with profits of 5, 4, 3, 3, 1, 100 and 3, in this order.\<close>

definition ranked_rows :: dataframe where
  "ranked_rows =
     map (\<lambda>(i, s). \<lparr>transaction_id = i, sale_date = 19301 * ns_per_day, customer_id = 200 + i,
            gender = ''Male'', age = 30, category = ''Beauty'', total_sale = s, cogs = 10\<rparr>)
       [(1, 15), (2, 14), (3, 13), (4, 13), (5, 11), (6, 110), (7, 13)]"

text \<open>Three transactions of customers aged 0, 17 and 101.\<close>

definition age_edge_rows :: dataframe where
  "age_edge_rows =
     [\<lparr>transaction_id = 4, sale_date = 19301 * ns_per_day, customer_id = 104, gender = ''Female'',
       age = 0, category = ''Beauty'', total_sale = 50, cogs = 20\<rparr>,
      \<lparr>transaction_id = 5, sale_date = 19302 * ns_per_day, customer_id = 105, gender = ''Male'',
       age = 17, category = ''Clothing'', total_sale = 30, cogs = 10\<rparr>,
      \<lparr>transaction_id = 6, sale_date = 19303 * ns_per_day, customer_id = 106, gender = ''Female'',
       age = 101, category = ''Electronics'', total_sale = 20, cogs = 5\<rparr>]"

text \<open>A table as the database delivers it: its column names, a row with a date that
  parses and one with a date that does not, and the parser's value on the two dates of
  the example.\<close>

definition sample_parse :: "string \<Rightarrow> timestamp option" where
  "sample_parse s =
     (if s = ''2022-11-05'' then Some (19301 * ns_per_day)
      else if s = ''2022-11-07'' then Some (19303 * ns_per_day)
      else None)"

definition all_columns :: "string list" where
  "all_columns = [''transaction_id'', ''sale_date'', ''customer_id'', ''gender'', ''age'',
     ''category'', ''cogs'', ''total_sale'']"

definition good_raw_row :: raw_row where
  "good_raw_row = \<lparr>raw_transaction_id = 1, raw_sale_date = ''2022-11-05'', raw_customer_id = 101,
     raw_gender = ''Male'', raw_age = 34, raw_category = ''Beauty'', raw_total_sale = 100,
     raw_cogs = 60\<rparr>"

definition bad_date_row :: raw_row where
  "bad_date_row = \<lparr>raw_transaction_id = 2, raw_sale_date = ''05/11/22 ??'', raw_customer_id = 102,
     raw_gender = ''Female'', raw_age = 52, raw_category = ''Clothing'', raw_total_sale = 200,
     raw_cogs = 50\<rparr>"

section \<open>Properties\<close>

subsection \<open>calculate\_kpis on the empty dataset\<close>

text \<open>
  C1, as the spec states it: for the empty dataset \<open>calculate_kpis\<close> returns a KPI set whose
  total revenue is 0. It does not: the function has no KPI set to return, so no total
  revenue of 0 either.
\<close>

theorem calculate_kpis_empty_counterexample:
  "map_option total_revenue (calculate_kpis (Some [])) \<noteq> Some (Fin 0)"
  by (simp add: calculate_kpis_def)

text \<open>
  C1, amended: given no dataset or the empty dataset, \<open>calculate_kpis\<close> returns None
  (nothing is raised), and it returns None for no other dataset.
\<close>

theorem calculate_kpis_empty:
  "calculate_kpis None = None \<and> calculate_kpis (Some []) = None
   \<and> (calculate_kpis (Some D) = None \<longleftrightarrow> D = [])"
  by (simp add: calculate_kpis_def)

subsection \<open>Division by zero in the ratio KPIs\<close>

lemma gross_profit_margin_guarded:
  "col_sum total_sale fd = 0 \<Longrightarrow> gross_profit_margin fd = Fin 0"
  by (simp add: gross_profit_margin_def)

lemma snapshot_avg_revenue_per_customer_guarded:
  "nunique (map customer_id fd) = 0 \<Longrightarrow> snapshot_avg_revenue_per_customer fd = Fin 0"
  by (simp add: snapshot_avg_revenue_per_customer_def)

text \<open>
  C4: the ratio KPIs are 0 when their denominator is 0. The snapshot block of the page
  does that (the two lemmas above); \<open>calculate_kpis\<close> divides without the guard, and on a
  dataset whose sales sum to 0 its profit margin is NaN where the snapshot's is 0.
\<close>

theorem calculate_kpis_unguarded_ratio:
  "map_option total_revenue (calculate_kpis (Some zero_sale_rows)) = Some (Fin 0)
   \<and> map_option kpi_profit_margin (calculate_kpis (Some zero_sale_rows)) = Some NaN
   \<and> gross_profit_margin zero_sale_rows = Fin 0"
  by (simp add: calculate_kpis_def zero_sale_rows_def gross_profit_margin_def col_sum_def
      profit_def)

subsection \<open>The filter\<close>

lemma select_rows_map: "select_rows df (map P df) = filter P df"
  by (induction df) (simp_all add: select_rows_def)

lemma mask_and_map: "mask_and (map P df) (map Q df) = map (\<lambda>r. P r \<and> Q r) df"
  by (induction df) (simp_all add: mask_and_def)

lemma isin_map: "isin (map f df) vals = map (\<lambda>r. f r \<in> set vals) df"
  by (simp add: isin_def comp_def)

lemma filtered_data_filter:
  "filtered_data (d0, d1) cs gs D =
     filter (\<lambda>r. d0 \<le> dt_date (sale_date r) \<and> dt_date (sale_date r) \<le> d1
                 \<and> category r \<in> set cs \<and> gender r \<in> set gs) D"
  by (simp add: filtered_data_def isin_map mask_and_map select_rows_map conj_assoc)

lemma dt_date_mono: "s \<le> t \<Longrightarrow> dt_date s \<le> dt_date t"
  by (simp add: dt_date_def ns_per_day_def zdiv_mono1)

lemma date_in_full_range:
  assumes "r \<in> set D"
  shows "min_date D \<le> dt_date (sale_date r) \<and> dt_date (sale_date r) \<le> max_date D"
proof -
  have "sale_date r \<in> set (map sale_date D)"
    using assms by simp
  then have "Min (set (map sale_date D)) \<le> sale_date r"
    and "sale_date r \<le> Max (set (map sale_date D))"
    by (simp_all del: set_map)
  then show ?thesis
    by (simp add: min_date_def max_date_def dt_date_mono)
qed

lemma set_unique: "set (unique xs) = set xs"
  by (simp add: unique_def)

text \<open>
  C3: the filter keeps exactly the rows whose calendar date is in the closed range and
  whose category and gender are among the selected ones, in their original order (the
  input is a value and cannot change); with the defaults of the sidebar (the full span of
  dates, every category, every gender) it returns the dataset itself.
\<close>

theorem filtered_data_spec:
  "filtered_data (d0, d1) cs gs D =
     filter (\<lambda>r. d0 \<le> dt_date (sale_date r) \<and> dt_date (sale_date r) \<le> d1
                 \<and> category r \<in> set cs \<and> gender r \<in> set gs) D
   \<and> subseq (filtered_data (d0, d1) cs gs D) D
   \<and> (D \<noteq> [] \<longrightarrow>
        filtered_data (min_date D, max_date D) (unique (map category D))
          (unique (map gender D)) D = D)"
proof (intro conjI impI)
  show "filtered_data (d0, d1) cs gs D =
     filter (\<lambda>r. d0 \<le> dt_date (sale_date r) \<and> dt_date (sale_date r) \<le> d1
                 \<and> category r \<in> set cs \<and> gender r \<in> set gs) D"
    by (rule filtered_data_filter)
  show "subseq (filtered_data (d0, d1) cs gs D) D"
    by (simp only: filtered_data_filter subseq_filter_left)
  show "filtered_data (min_date D, max_date D) (unique (map category D))
          (unique (map gender D)) D = D"
    unfolding filtered_data_filter
    by (rule filter_True) (simp add: date_in_full_range set_unique)
qed

theorem filtered_data_spec_witness:
  "example_rows \<noteq> []
   \<and> filtered_data (19301, 19303) [''Beauty'', ''Clothing''] [''Male'', ''Female'']
       example_rows = example_rows
   \<and> filtered_data (19302, 19303) [''Beauty'', ''Clothing''] [''Male'', ''Female'']
       example_rows = tl example_rows"
  using filtered_data_spec [of "min_date example_rows" "max_date example_rows"
      "unique (map category example_rows)" "unique (map gender example_rows)" example_rows]
    filtered_data_spec [of 19302 19303 "[''Beauty'', ''Clothing'']" "[''Male'', ''Female'']"
      example_rows]
  by (simp add: example_rows_def min_date_def max_date_def unique_def dt_date_def
      ns_per_day_def)

subsection \<open>Sales by day of the week\<close>

lemma map_of_keyed:
  "map_of (map (\<lambda>k. (k, f k)) ks) l = (if l \<in> set ks then Some (f l) else None)"
  by (induction ks) auto

lemma groupby_sum_lookup:
  "map_of (groupby_sum key val df) l =
     (if l \<in> key ` set df then Some (sum_list (map val (filter (\<lambda>r. key r = l) df))) else None)"
  by (simp add: groupby_sum_def map_of_keyed)

lemma map_fst_reindex: "map fst (reindex labels s) = labels"
  by (simp add: reindex_def comp_def)

lemma week_day_label: "week_day r \<in> set weekday_labels"
proof -
  have "nat ((dt_date (sale_date r) + 3) mod 7) < 7"
    by simp
  then have "weekday_labels ! nat ((dt_date (sale_date r) + 3) mod 7) \<in> set weekday_labels"
    by (intro nth_mem) (simp add: weekday_labels_def)
  then show ?thesis
    by (simp add: week_day_def day_name_def)
qed

text \<open>
  C5: whatever the dataset and its order, the weekday aggregation has exactly seven
  entries, keyed Monday to Sunday in that order; a weekday on which the dataset has no
  transaction is kept, with the missing value NaN, and every other weekday has the sum of
  its sales.
\<close>

theorem weekday_sales_spec:
  "map fst (weekday_sales D) = weekday_labels
   \<and> length (weekday_sales D) = 7
   \<and> map snd (weekday_sales D) =
       map (\<lambda>d. if d \<in> week_day ` set D
                then Fin (sum_list (map total_sale (filter (\<lambda>r. week_day r = d) D)))
                else NaN) weekday_labels"
proof (intro conjI)
  show "map fst (weekday_sales D) = weekday_labels"
    by (simp add: weekday_sales_def map_fst_reindex)
  show "length (weekday_sales D) = 7"
    by (simp add: weekday_sales_def reindex_def weekday_labels_def)
  show "map snd (weekday_sales D) =
       map (\<lambda>d. if d \<in> week_day ` set D
                then Fin (sum_list (map total_sale (filter (\<lambda>r. week_day r = d) D)))
                else NaN) weekday_labels"
    by (simp add: weekday_sales_def reindex_def comp_def groupby_sum_lookup)
qed

subsection \<open>Top and bottom five transactions by profit\<close>

lemma sorted_desc_sort_key:
  "sorted_wrt (\<lambda>a b. f b \<le> f a) (sort_key (\<lambda>r. - f r) (xs :: 'a list))" for f :: "'a \<Rightarrow> rat"
proof -
  have "sorted (map (\<lambda>r. - f r) (sort_key (\<lambda>r. - f r) xs))"
    by (rule sorted_sort_key)
  then show ?thesis
    by (simp add: sorted_map)
qed

lemma sorted_asc_sort_key:
  "sorted_wrt (\<lambda>a b. f a \<le> f b) (sort_key f (xs :: 'a list))" for f :: "'a \<Rightarrow> rat"
proof -
  have "sorted (map f (sort_key f xs))"
    by (rule sorted_sort_key)
  then show ?thesis
    by (simp add: sorted_map)
qed

lemma filter_take_prefix: "prefix (filter P (take n ys)) (filter P ys)"
proof -
  have "filter P ys = filter P (take n ys) @ filter P (drop n ys)"
    by (metis append_take_drop_id filter_append)
  then show ?thesis
    by (simp add: prefix_def)
qed

lemma nlargest_ties: "prefix (filter (\<lambda>r. col r = p) (nlargest n col df)) (filter (\<lambda>r. col r = p) df)"
proof -
  have "filter (\<lambda>r. - col r = - p) (sort_key (\<lambda>r. - col r) df) = filter (\<lambda>r. - col r = - p) df"
    by (rule sort_key_stable)
  then have "filter (\<lambda>r. col r = p) (sort_key (\<lambda>r. - col r) df) = filter (\<lambda>r. col r = p) df"
    by simp
  then show ?thesis
    unfolding nlargest_def by (metis filter_take_prefix)
qed

lemma nsmallest_ties: "prefix (filter (\<lambda>r. col r = p) (nsmallest n col df)) (filter (\<lambda>r. col r = p) df)"
proof -
  have "filter (\<lambda>r. col r = p) (sort_key col df) = filter (\<lambda>r. col r = p) df"
    by (rule sort_key_stable)
  then show ?thesis
    unfolding nsmallest_def by (metis filter_take_prefix)
qed

lemma take_drop_dominates:
  assumes "sorted_wrt R ys"
  shows "\<forall>a\<in>set (take n ys). \<forall>b\<in>set (drop n ys). R a b"
proof -
  have "sorted_wrt R (take n ys @ drop n ys)"
    using assms by simp
  then show ?thesis
    unfolding sorted_wrt_append by blast
qed

lemma nlargest_selection:
  "\<exists>rest. mset (nlargest n col df @ rest) = mset df
     \<and> (\<forall>a\<in>set (nlargest n col df). \<forall>b\<in>set rest. col b \<le> col a)"
proof (intro exI conjI)
  show "mset (nlargest n col df @ drop n (sort_key (\<lambda>r. - col r) df)) = mset df"
    unfolding nlargest_def by (simp only: append_take_drop_id mset_sort)
  show "\<forall>a\<in>set (nlargest n col df). \<forall>b\<in>set (drop n (sort_key (\<lambda>r. - col r) df)).
          col b \<le> col a"
    unfolding nlargest_def by (rule take_drop_dominates) (rule sorted_desc_sort_key)
qed

lemma nsmallest_selection:
  "\<exists>rest. mset (nsmallest n col df @ rest) = mset df
     \<and> (\<forall>a\<in>set (nsmallest n col df). \<forall>b\<in>set rest. col a \<le> col b)"
proof (intro exI conjI)
  show "mset (nsmallest n col df @ drop n (sort_key col df)) = mset df"
    unfolding nsmallest_def by (simp only: append_take_drop_id mset_sort)
  show "\<forall>a\<in>set (nsmallest n col df). \<forall>b\<in>set (drop n (sort_key col df)). col a \<le> col b"
    unfolding nsmallest_def by (rule take_drop_dominates) (rule sorted_asc_sort_key)
qed

text \<open>
  C6, for the cells of the profit column whatever their values (the float64 ones of the
  script among them): the top five are in non-increasing and the bottom five in
  non-decreasing order of profit; each selection has min(5, |D|) rows; the rows of D are
  the selected rows and the rest, and no row of the rest has a larger (for the bottom
  five: a smaller) profit than a selected row; and among rows of equal profit the
  selection takes the earliest of the dataset, in their original order (for every profit
  \<open>p\<close>, the selected rows of profit \<open>p\<close> are an initial part of the rows of profit \<open>p\<close> of
  the dataset).
\<close>

theorem top_bottom_trans_spec:
  "sorted_wrt (\<lambda>a b. col b \<le> col a) (top_trans col D)
   \<and> sorted_wrt (\<lambda>a b. col a \<le> col b) (bottom_trans col D)
   \<and> length (top_trans col D) = min 5 (length D)
   \<and> length (bottom_trans col D) = min 5 (length D)
   \<and> (\<exists>rest. mset (top_trans col D @ rest) = mset D
         \<and> (\<forall>a\<in>set (top_trans col D). \<forall>b\<in>set rest. col b \<le> col a))
   \<and> (\<exists>rest. mset (bottom_trans col D @ rest) = mset D
         \<and> (\<forall>a\<in>set (bottom_trans col D). \<forall>b\<in>set rest. col a \<le> col b))
   \<and> prefix (filter (\<lambda>r. col r = p) (top_trans col D)) (filter (\<lambda>r. col r = p) D)
   \<and> prefix (filter (\<lambda>r. col r = p) (bottom_trans col D)) (filter (\<lambda>r. col r = p) D)"
proof (intro conjI)
  show "sorted_wrt (\<lambda>a b. col b \<le> col a) (top_trans col D)"
    unfolding top_trans_def nlargest_def by (intro sorted_wrt_take sorted_desc_sort_key)
  show "sorted_wrt (\<lambda>a b. col a \<le> col b) (bottom_trans col D)"
    unfolding bottom_trans_def nsmallest_def by (intro sorted_wrt_take sorted_asc_sort_key)
  show "length (top_trans col D) = min 5 (length D)"
    by (simp add: top_trans_def nlargest_def min.commute)
  show "length (bottom_trans col D) = min 5 (length D)"
    by (simp add: bottom_trans_def nsmallest_def min.commute)
  show "\<exists>rest. mset (top_trans col D @ rest) = mset D
         \<and> (\<forall>a\<in>set (top_trans col D). \<forall>b\<in>set rest. col b \<le> col a)"
    unfolding top_trans_def by (rule nlargest_selection)
  show "\<exists>rest. mset (bottom_trans col D @ rest) = mset D
         \<and> (\<forall>a\<in>set (bottom_trans col D). \<forall>b\<in>set rest. col a \<le> col b)"
    unfolding bottom_trans_def by (rule nsmallest_selection)
  show "prefix (filter (\<lambda>r. col r = p) (top_trans col D)) (filter (\<lambda>r. col r = p) D)"
    unfolding top_trans_def by (rule nlargest_ties)
  show "prefix (filter (\<lambda>r. col r = p) (bottom_trans col D)) (filter (\<lambda>r. col r = p) D)"
    unfolding bottom_trans_def by (rule nsmallest_ties)
qed

theorem top_bottom_trans_spec_witness:
  "map profit ranked_rows = [5, 4, 3, 3, 1, 100, 3]
   \<and> map transaction_id (top_trans profit ranked_rows) = [6, 1, 2, 3, 4]
   \<and> map transaction_id (bottom_trans profit ranked_rows) = [5, 3, 4, 7, 2]
   \<and> map transaction_id (filter (\<lambda>r. profit r = 3) (top_trans profit ranked_rows)) = [3, 4]
   \<and> map transaction_id (filter (\<lambda>r. profit r = 3) ranked_rows) = [3, 4, 7]"
proof -
  have "length (top_trans profit ranked_rows) = min 5 (length ranked_rows)"
    using top_bottom_trans_spec [of profit ranked_rows 3] by blast
  then show ?thesis
    by (simp add: ranked_rows_def top_trans_def bottom_trans_def nlargest_def nsmallest_def
        profit_def)
qed

subsection \<open>Sums over groups\<close>

lemma sum_list_bump:
  fixes s :: "'k \<Rightarrow> rat"
  shows "distinct ks \<Longrightarrow>
     sum_list (map (\<lambda>k. if k = k0 then a + s k else s k) ks)
       = (if k0 \<in> set ks then a else 0) + sum_list (map s ks)"
  by (induction ks) auto

lemma group_sums_total:
  fixes val :: "'r \<Rightarrow> rat"
  assumes "distinct ks"
  shows "sum_list (map (\<lambda>k. sum_list (map val (filter (\<lambda>r. key r = k) xs))) ks)
           = sum_list (map val (filter (\<lambda>r. key r \<in> set ks) xs))"
proof (induction xs)
  case Nil
  show ?case by simp
next
  case (Cons x xs)
  have "sum_list (map (\<lambda>k. sum_list (map val (filter (\<lambda>r. key r = k) (x # xs)))) ks)
      = sum_list (map (\<lambda>k. if k = key x then val x + sum_list (map val (filter (\<lambda>r. key r = k) xs))
                          else sum_list (map val (filter (\<lambda>r. key r = k) xs))) ks)"
    by (intro arg_cong [where f = sum_list] map_cong) auto
  also have "\<dots> = (if key x \<in> set ks then val x else 0)
      + sum_list (map (\<lambda>k. sum_list (map val (filter (\<lambda>r. key r = k) xs))) ks)"
    using assms by (rule sum_list_bump)
  finally show ?case
    using Cons.IH by simp
qed

subsection \<open>Auto insights\<close>

lemma foldl_fadd_Fin: "foldl fadd (Fin a) (map Fin xs) = Fin (a + sum_list xs)"
  by (induction xs arbitrary: a) (simp_all add: add.assoc)







subsection \<open>Sales by age group\<close>

lemma age_group_cases:
  "age_group r =
     (if 0 < age r \<and> age r \<le> 25 then Some ''18-25''
      else if 25 < age r \<and> age r \<le> 35 then Some ''26-35''
      else if 35 < age r \<and> age r \<le> 45 then Some ''36-45''
      else if 45 < age r \<and> age r \<le> 55 then Some ''46-55''
      else if 55 < age r \<and> age r \<le> 100 then Some ''55+''
      else None)"
  by (simp add: age_group_def age_bins_def age_labels_def)

lemma age_group_labelled:
  "age_group r \<in> set (map Some age_labels) \<longleftrightarrow> 0 < age r \<and> age r \<le> 100"
  by (auto simp add: age_group_cases age_labels_def)

lemma notna_marked:
  "notna (map (\<lambda>l. if P l then Fin (s l) else NaN) ls) = map Fin (map s (filter P ls))"
  by (induction ls) (simp_all add: notna_def)

lemma sum_list_filter_zero:
  fixes s :: "'k \<Rightarrow> rat"
  shows "(\<forall>l\<in>set ls. \<not> P l \<longrightarrow> s l = 0) \<Longrightarrow>
     sum_list (map s (filter P ls)) = sum_list (map s ls)"
  by (induction ls) simp_all

lemma series_sum_marked:
  assumes "\<forall>l\<in>set ls. \<not> P l \<longrightarrow> s l = 0"
  shows "series_sum (map (\<lambda>l. if P l then Fin (s l) else NaN) ls) = Fin (sum_list (map s ls))"
proof -
  have "series_sum (map (\<lambda>l. if P l then Fin (s l) else NaN) ls)
      = Fin (sum_list (map s (filter P ls)))"
    by (simp only: series_sum_def notna_marked foldl_fadd_Fin) simp
  then show ?thesis
    using assms by (simp add: sum_list_filter_zero)
qed

lemma age_sales_values:
  "map snd (age_sales observed D) =
     map (\<lambda>l. if \<not> observed \<or> Some l \<in> age_group ` set D
              then Fin (sum_list (map total_sale (filter (\<lambda>r. age_group r = Some l) D)))
              else NaN) age_labels"
  by (auto simp add: age_sales_def reindex_def groupby_cat_sum_def map_of_keyed comp_def)

lemma empty_bucket_zero:
  "Some l \<notin> age_group ` set D \<Longrightarrow>
     sum_list (map total_sale (filter (\<lambda>r. age_group r = Some l) D)) = 0"
proof -
  assume "Some l \<notin> age_group ` set D"
  then have "filter (\<lambda>r. age_group r = Some l) D = []"
    by (force simp add: filter_empty_conv)
  then show ?thesis
    by simp
qed

lemma age_sales_sum:
  "series_sum (map snd (age_sales observed D))
     = Fin (col_sum total_sale (filter (\<lambda>r. 0 < age r \<and> age r \<le> 100) D))"
proof -
  let ?s = "\<lambda>l. sum_list (map total_sale (filter (\<lambda>r. age_group r = Some l) D))"
  have "series_sum (map snd (age_sales observed D)) = Fin (sum_list (map ?s age_labels))"
    unfolding age_sales_values
    by (rule series_sum_marked) (simp add: empty_bucket_zero)
  also have "sum_list (map ?s age_labels)
      = sum_list (map (\<lambda>k. sum_list (map total_sale (filter (\<lambda>r. age_group r = k) D)))
          (map Some age_labels))"
    by (simp add: comp_def)
  also have "\<dots> = sum_list (map total_sale (filter (\<lambda>r. age_group r \<in> set (map Some age_labels)) D))"
    by (rule group_sums_total) (simp add: age_labels_def distinct_map)
  also have "\<dots> = col_sum total_sale (filter (\<lambda>r. 0 < age r \<and> age r \<le> 100) D)"
    by (simp only: age_group_labelled col_sum_def)
  finally show ?thesis .
qed

text \<open>
  C8, as the spec states it: every nonnegative age falls into a bucket, the last bucket
  being open-ended. It does not: the customers aged 0 and 101 get no bucket.
\<close>

theorem age_buckets_counterexample:
  "map age (age_edge_rows) = [0, 17, 101]
   \<and> map age_group age_edge_rows = [None, Some ''18-25'', None]"
  by (simp add: age_edge_rows_def age_group_cases)

text \<open>
  C8, amended: the buckets are the ages 1 to 25 ("18-25"), 26 to 35, 36 to 45, 46 to 55 and
  56 to 100 ("55+"); every age from 1 to 100 falls into one of them, the ages from 1 to 17
  into "18-25", and an age of 0 or less or above 100 into none. The aggregation has one
  entry per label, in the order of the labels, and under the groupby default of pandas
  before 3.0 (\<open>observed=False\<close>) a bucket without records has the value 0.
\<close>

theorem age_sales_buckets:
  "age_group r =
     (if 1 \<le> age r \<and> age r \<le> 25 then Some ''18-25''
      else if 26 \<le> age r \<and> age r \<le> 35 then Some ''26-35''
      else if 36 \<le> age r \<and> age r \<le> 45 then Some ''36-45''
      else if 46 \<le> age r \<and> age r \<le> 55 then Some ''46-55''
      else if 56 \<le> age r \<and> age r \<le> 100 then Some ''55+''
      else None)
   \<and> (1 \<le> age r \<and> age r \<le> 100 \<longrightarrow> age_group r \<in> set (map Some age_labels))
   \<and> (1 \<le> age r \<and> age r < 18 \<longrightarrow> age_group r = Some ''18-25'')
   \<and> map fst (age_sales observed D) = age_labels
   \<and> map snd (age_sales False D) =
       map (\<lambda>l. Fin (sum_list (map total_sale (filter (\<lambda>r. age_group r = Some l) D))))
         age_labels
   \<and> (l \<in> set age_labels \<and> (\<forall>r\<in>set D. age_group r \<noteq> Some l) \<longrightarrow>
        (l, Fin 0) \<in> set (age_sales False D))"
proof (intro conjI impI)
  show "age_group r =
     (if 1 \<le> age r \<and> age r \<le> 25 then Some ''18-25''
      else if 26 \<le> age r \<and> age r \<le> 35 then Some ''26-35''
      else if 36 \<le> age r \<and> age r \<le> 45 then Some ''36-45''
      else if 46 \<le> age r \<and> age r \<le> 55 then Some ''46-55''
      else if 56 \<le> age r \<and> age r \<le> 100 then Some ''55+''
      else None)"
    by (simp add: age_group_cases)
  show "age_group r \<in> set (map Some age_labels)" if "1 \<le> age r \<and> age r \<le> 100"
    using that by (simp only: age_group_labelled) simp
  show "age_group r = Some ''18-25''" if "1 \<le> age r \<and> age r < 18"
    using that by (simp add: age_group_cases)
  show "map fst (age_sales observed D) = age_labels"
    by (simp add: age_sales_def map_fst_reindex)
  show "map snd (age_sales False D) =
       map (\<lambda>l. Fin (sum_list (map total_sale (filter (\<lambda>r. age_group r = Some l) D))))
         age_labels"
    by (simp add: age_sales_values)
  show "(l, Fin 0) \<in> set (age_sales False D)"
    if h: "l \<in> set age_labels \<and> (\<forall>r\<in>set D. age_group r \<noteq> Some l)"
  proof -
    have "filter (\<lambda>r. age_group r = Some l) D = []"
      using h by (simp add: filter_empty_conv)
    then have "(l, Fin 0) = (\<lambda>l. (l, Fin (sum_list (map total_sale
        (filter (\<lambda>r. age_group r = Some l) D))))) l"
      by simp
    moreover have "age_sales False D = map (\<lambda>l. (l, Fin (sum_list (map total_sale
        (filter (\<lambda>r. age_group r = Some l) D))))) age_labels"
      by (simp add: age_sales_def reindex_def groupby_cat_sum_def map_of_keyed)
    ultimately show ?thesis
      using h by (simp only: set_map) blast
  qed
qed

theorem age_sales_buckets_witness:
  "map age age_edge_rows = [0, 17, 101]
   \<and> age_group (age_edge_rows ! 1) = Some ''18-25''
   \<and> age_sales False age_edge_rows =
       [(''18-25'', Fin 30), (''26-35'', Fin 0), (''36-45'', Fin 0), (''46-55'', Fin 0),
        (''55+'', Fin 0)]"
  using age_sales_buckets [of "age_edge_rows ! 1" False age_edge_rows "''26-35''"]
  by (simp add: age_edge_rows_def age_sales_def reindex_def groupby_cat_sum_def age_labels_def
      age_group_cases)

text \<open>
  C10: the bins are the right-closed intervals (0,25], (25,35], (35,45], (45,55] and
  (55,100]; a record whose age is at most 0 or above 100 has no age group; the age-group
  values add up to the sales of the records aged 1 to 100 only, while the total revenue
  counts every record; so for some datasets (here the three customers aged 0, 17 and 101:
  30 against 100) the age-group values add up to strictly less than the total revenue.
\<close>

theorem age_group_right_closed:
  "(age_group r = Some ''18-25'' \<longleftrightarrow> 0 < age r \<and> age r \<le> 25)
   \<and> (age_group r = Some ''26-35'' \<longleftrightarrow> 25 < age r \<and> age r \<le> 35)
   \<and> (age_group r = Some ''36-45'' \<longleftrightarrow> 35 < age r \<and> age r \<le> 45)
   \<and> (age_group r = Some ''46-55'' \<longleftrightarrow> 45 < age r \<and> age r \<le> 55)
   \<and> (age_group r = Some ''55+'' \<longleftrightarrow> 55 < age r \<and> age r \<le> 100)
   \<and> (age_group r = None \<longleftrightarrow> age r \<le> 0 \<or> 100 < age r)
   \<and> series_sum (map snd (age_sales observed D))
       = Fin (col_sum total_sale (filter (\<lambda>r. 0 < age r \<and> age r \<le> 100) D))
   \<and> series_sum (map snd (age_sales observed age_edge_rows)) = Fin 30
   \<and> map_option total_revenue (calculate_kpis (Some age_edge_rows)) = Some (Fin 100)
   \<and> (\<exists>D k. calculate_kpis (Some D) = Some k
         \<and> flt (series_sum (map snd (age_sales observed D))) (total_revenue k))"
proof -
  have ranges: "(age_group r = Some ''18-25'' \<longleftrightarrow> 0 < age r \<and> age r \<le> 25)
   \<and> (age_group r = Some ''26-35'' \<longleftrightarrow> 25 < age r \<and> age r \<le> 35)
   \<and> (age_group r = Some ''36-45'' \<longleftrightarrow> 35 < age r \<and> age r \<le> 45)
   \<and> (age_group r = Some ''46-55'' \<longleftrightarrow> 45 < age r \<and> age r \<le> 55)
   \<and> (age_group r = Some ''55+'' \<longleftrightarrow> 55 < age r \<and> age r \<le> 100)
   \<and> (age_group r = None \<longleftrightarrow> age r \<le> 0 \<or> 100 < age r)"
    by (auto simp add: age_group_cases)
  have part: "series_sum (map snd (age_sales observed age_edge_rows)) = Fin 30"
    by (simp add: age_sales_sum) (simp add: age_edge_rows_def col_sum_def)
  have total: "map_option total_revenue (calculate_kpis (Some age_edge_rows)) = Some (Fin 100)"
    by (simp add: calculate_kpis_def age_edge_rows_def col_sum_def)
  then obtain k where k: "calculate_kpis (Some age_edge_rows) = Some k" "total_revenue k = Fin 100"
    by auto
  have "flt (series_sum (map snd (age_sales observed age_edge_rows))) (total_revenue k)"
    by (simp add: part k)
  then have ex: "\<exists>D k. calculate_kpis (Some D) = Some k
         \<and> flt (series_sum (map snd (age_sales observed D))) (total_revenue k)"
    using k by blast
  show ?thesis
    using ranges part total ex age_sales_sum [of observed D] by (intro conjI) simp_all
qed

subsection \<open>Loading\<close>

lemma to_datetime_col_fails:
  "(\<exists>e. to_datetime_col parse ss = Inl e) \<longleftrightarrow> (\<exists>s\<in>set ss. parse s = None)"
  by (induction ss) (auto split: option.splits sum.splits)

lemma to_datetime_col_length:
  "to_datetime_col parse ss = Inr ts \<Longrightarrow> length ts = length ss"
  by (induction ss arbitrary: ts) (auto split: option.splits sum.splits)

lemma load_body_fails:
  "(\<exists>e. load_body fetch parse = Inl e) \<longleftrightarrow>
     (\<exists>e. fetch = Inl e)
     \<or> (\<exists>t. fetch = Inr t
          \<and> (''sale_date'' \<notin> set (columns t) \<or> ''total_sale'' \<notin> set (columns t)
              \<or> ''cogs'' \<notin> set (columns t)
              \<or> (\<exists>r\<in>set (raw_rows t). parse (raw_sale_date r) = None)))"
proof (cases fetch)
  case (Inl e)
  then show ?thesis
    by (simp add: load_body_def)
next
  case (Inr t)
  have "(\<exists>e. to_datetime_col parse (map raw_sale_date (raw_rows t)) = Inl e)
      \<longleftrightarrow> (\<exists>r\<in>set (raw_rows t). parse (raw_sale_date r) = None)"
    by (simp add: to_datetime_col_fails)
  then show ?thesis
    using Inr by (auto simp add: load_body_def require_column_def split: sum.splits)
qed

lemma load_none_iff: "load_retail_data fetch parse = None \<longleftrightarrow> (\<exists>e. load_body fetch parse = Inl e)"
  by (simp add: load_retail_data_def split: sum.splits)

text \<open>
  C9: loading never raises. It returns None exactly when the body of its \<open>try\<close> block
  raises, which is when the fetch fails, when one of the columns it reads (sale\_date,
  total\_sale, cogs) is missing, or when some sale date does not parse; so a malformed row
  and an unavailable database give the same result. When the result is None the page
  stops and nothing below runs; otherwise the rest of the page runs on the loaded data.
\<close>

theorem load_retail_data_total:
  "(load_retail_data fetch parse = None \<longleftrightarrow> (\<exists>e. load_body fetch parse = Inl e))
   \<and> ((\<exists>e. load_body fetch parse = Inl e) \<longleftrightarrow>
        (\<exists>e. fetch = Inl e)
        \<or> (\<exists>t. fetch = Inr t
             \<and> (''sale_date'' \<notin> set (columns t) \<or> ''total_sale'' \<notin> set (columns t)
                 \<or> ''cogs'' \<notin> set (columns t)
                 \<or> (\<exists>r\<in>set (raw_rows t). parse (raw_sale_date r) = None))))
   \<and> (load_body fetch parse = Inr df \<longrightarrow> load_retail_data fetch parse = Some df)
   \<and> (load_retail_data fetch parse = None \<longrightarrow> dashboard fetch parse rest = Stopped)
   \<and> (load_retail_data fetch parse = Some df \<longrightarrow> dashboard fetch parse rest = Rendered (rest df))"
proof (intro conjI impI)
  show "load_retail_data fetch parse = None \<longleftrightarrow> (\<exists>e. load_body fetch parse = Inl e)"
    by (rule load_none_iff)
  show "(\<exists>e. load_body fetch parse = Inl e) \<longleftrightarrow>
        (\<exists>e. fetch = Inl e)
        \<or> (\<exists>t. fetch = Inr t
             \<and> (''sale_date'' \<notin> set (columns t) \<or> ''total_sale'' \<notin> set (columns t)
                 \<or> ''cogs'' \<notin> set (columns t)
                 \<or> (\<exists>r\<in>set (raw_rows t). parse (raw_sale_date r) = None)))"
    by (rule load_body_fails)
  show "load_retail_data fetch parse = Some df" if "load_body fetch parse = Inr df"
    using that by (simp add: load_retail_data_def)
  show "dashboard fetch parse rest = Stopped" if "load_retail_data fetch parse = None"
    using that by (simp add: dashboard_def)
  show "dashboard fetch parse rest = Rendered (rest df)" if "load_retail_data fetch parse = Some df"
    using that by (simp add: dashboard_def)
qed

theorem load_retail_data_total_witness:
  "load_retail_data (Inl DatabaseError) sample_parse = None
   \<and> dashboard (Inl DatabaseError) sample_parse length = Stopped
   \<and> load_body (Inr \<lparr>columns = all_columns, raw_rows = [good_raw_row, bad_date_row]\<rparr>) sample_parse
       = Inl ValueError
   \<and> load_retail_data (Inr \<lparr>columns = all_columns, raw_rows = [good_raw_row, bad_date_row]\<rparr>)
       sample_parse = None
   \<and> dashboard (Inr \<lparr>columns = all_columns, raw_rows = [good_raw_row, bad_date_row]\<rparr>)
       sample_parse length = Stopped
   \<and> load_retail_data (Inr \<lparr>columns = [''sale_date'', ''total_sale''], raw_rows = [good_raw_row]\<rparr>)
       sample_parse = None
   \<and> load_body (Inr \<lparr>columns = all_columns, raw_rows = [good_raw_row]\<rparr>) sample_parse
       = Inr [typed_row good_raw_row (19301 * ns_per_day)]
   \<and> dashboard (Inr \<lparr>columns = all_columns, raw_rows = [good_raw_row]\<rparr>) sample_parse length
       = Rendered 1"
  using load_retail_data_total [of "Inl DatabaseError" sample_parse "[]" length]
    load_retail_data_total [of "Inr \<lparr>columns = all_columns, raw_rows = [good_raw_row, bad_date_row]\<rparr>"
      sample_parse "[]" length]
    load_retail_data_total [of "Inr \<lparr>columns = all_columns, raw_rows = [good_raw_row]\<rparr>"
      sample_parse "[typed_row good_raw_row (19301 * ns_per_day)]" length]
  by (simp add: load_retail_data_def load_body_def require_column_def all_columns_def
      good_raw_row_def bad_date_row_def sample_parse_def dashboard_def)

end
